theory Spec2Isabelle
  imports Main
begin

section \<open>Data: JSON values, requests, responses, exceptions, effects\<close>

text \<open>
  The module \<^verbatim>\<open>app/main.py\<close> wires a FastAPI application: a CORS policy, a logging
  middleware, a startup hook, two exception handlers and three system endpoints. Python
  dictionaries keep insertion order, so a JSON object is an association list.
\<close>

datatype json = JStr string | JObj "(string \<times> json) list"

datatype content = JSON json | Text string

text \<open>
  Of a request the module reads \<^verbatim>\<open>request.method\<close> (the field \<open>http_method\<close>) and
  \<^verbatim>\<open>request.url.path\<close>; the CORS middleware reads the headers.
\<close>

record request =
  http_method :: string
  url_path :: string
  headers :: "(string \<times> string) list"

record response =
  status_code :: nat
  raw_headers :: "(string \<times> string) list"
  body :: content

text \<open>
  A raised Python exception is known to this module only through its class (handlers
  and \<^verbatim>\<open>except\<close> clauses test \<^verbatim>\<open>isinstance\<close>, which walks
  \<^verbatim>\<open>type(exc).__mro__\<close>) and through \<^verbatim>\<open>str(exc)\<close>.
\<close>

record exc =
  exc_mro :: "string list"
  exc_str :: string

definition isinstance :: "exc \<Rightarrow> string \<Rightarrow> bool" where
  "isinstance e c = (c \<in> set (exc_mro e))"

text \<open>
  Everything the module does besides returning a value is an event: a log record
  (\<^verbatim>\<open>logger.info\<close>, \<^verbatim>\<open>logger.error\<close>) or a call into the database module.
  A computation returns its result, or the exception it raised, with the events it
  emitted in order.
\<close>

datatype level = INFO | ERROR

datatype db_call = GetEngine | InitDb | Connect | Execute string | Close

datatype event = Log level string | Db db_call

type_synonym 'a io = "(exc + 'a) \<times> event list"

definition return_io :: "'a \<Rightarrow> 'a io" where
  "return_io x = (Inr x, [])"

definition raise_io :: "exc \<Rightarrow> 'a io" where
  "raise_io e = (Inl e, [])"

definition emit :: "event \<Rightarrow> unit io" where
  "emit ev = (Inr (), [ev])"

definition bind_io :: "'a io \<Rightarrow> ('a \<Rightarrow> 'b io) \<Rightarrow> 'b io" where
  "bind_io m f =
     (case m of
        (Inl e, t) \<Rightarrow> (Inl e, t)
      | (Inr x, t) \<Rightarrow> (case f x of (r, t') \<Rightarrow> (r, t @ t')))"

definition then_io :: "unit io \<Rightarrow> 'b io \<Rightarrow> 'b io" where
  "then_io m k = bind_io m (\<lambda>_. k)"

text \<open>\<^verbatim>\<open>logging.basicConfig(level=logging.INFO)\<close>: both levels used here are emitted.\<close>

definition logger_info :: "string \<Rightarrow> unit io" where
  "logger_info msg = emit (Log INFO msg)"

definition logger_error :: "string \<Rightarrow> unit io" where
  "logger_error msg = emit (Log ERROR msg)"

text \<open>Decimal rendering of a status code inside an f-string.\<close>

definition digit :: "nat \<Rightarrow> char" where
  "digit d =
     (if d = 0 then CHR ''0'' else if d = 1 then CHR ''1'' else if d = 2 then CHR ''2''
      else if d = 3 then CHR ''3'' else if d = 4 then CHR ''4'' else if d = 5 then CHR ''5''
      else if d = 6 then CHR ''6'' else if d = 7 then CHR ''7'' else if d = 8 then CHR ''8''
      else CHR ''9'')"

fun str_nat :: "nat \<Rightarrow> string" where
  "str_nat n = (if n < 10 then [digit n] else str_nat (n div 10) @ [digit (n mod 10)])"

text \<open>The non-ASCII characters of the log messages, as their UTF-8 bytes.\<close>

definition rightwards_arrow :: string where
  "rightwards_arrow = [CHR 0xE2, CHR 0x86, CHR 0x92]"

definition leftwards_arrow :: string where
  "leftwards_arrow = [CHR 0xE2, CHR 0x86, CHR 0x90]"

definition check_mark :: string where
  "check_mark = [CHR 0xE2, CHR 0x9C, CHR 0x93]"

definition ballot_x :: string where
  "ballot_x = [CHR 0xE2, CHR 0x9C, CHR 0x97]"

section \<open>The response class used by the handlers\<close>

text \<open>
  \<^verbatim>\<open>JSONResponse(status_code=..., content=...)\<close>: no headers are passed, the media type
  is \<^verbatim>\<open>application/json\<close>. The content-length header, a function of the rendered
  bytes, is left out of \<open>raw_headers\<close>.
\<close>

definition JSONResponse :: "nat \<Rightarrow> json \<Rightarrow> response" where
  "JSONResponse sc c =
     \<lparr>status_code = sc, raw_headers = [(''content-type'', ''application/json'')], body = JSON c\<rparr>"

definition HTTP_503_SERVICE_UNAVAILABLE :: nat where
  "HTTP_503_SERVICE_UNAVAILABLE = 503"

definition HTTP_500_INTERNAL_SERVER_ERROR :: nat where
  "HTTP_500_INTERNAL_SERVER_ERROR = 500"

section \<open>The CORS configuration (lines 24-36)\<close>

record cors_config =
  allow_origins :: "string list"
  allow_credentials :: bool
  allow_methods :: "string list"
  allow_headers :: "string list"

definition cors :: cors_config where
  "cors =
     \<lparr>allow_origins =
        [''http://localhost:3000'',
         ''http://127.0.0.1:3000'',
         ''https://todo-evolution-liart.vercel.app'',
         ''https://todo-evolution.vercel.app'',
         ''https://evaluation-todo.vercel.app''],
      allow_credentials = True,
      allow_methods = [''GET'', ''POST'', ''PUT'', ''PATCH'', ''DELETE'', ''OPTIONS''],
      allow_headers = [''*'']\<rparr>"

section \<open>The logging middleware (lines 40-46)\<close>

text \<open>
  \<^verbatim>\<open>
  logger.info(f"-> {request.method} {request.url.path}")
  response = await call_next(request)
  logger.info(f"<- {request.method} {request.url.path} -> {response.status_code}")
  return response
  \<close>
  (the arrows are U+2192 and U+2190 in the source). There is no \<^verbatim>\<open>try\<close>: when
  \<^verbatim>\<open>call_next\<close> raises, the exception leaves the function at the second line.
\<close>

definition log_before :: "request \<Rightarrow> string" where
  "log_before rq = rightwards_arrow @ '' '' @ http_method rq @ '' '' @ url_path rq"

definition log_after :: "request \<Rightarrow> response \<Rightarrow> string" where
  "log_after rq rs =
     leftwards_arrow @ '' '' @ http_method rq @ '' '' @ url_path rq @ '' '' @ rightwards_arrow
       @ '' '' @ str_nat (status_code rs)"

definition log_requests :: "request \<Rightarrow> (request \<Rightarrow> response io) \<Rightarrow> response io" where
  "log_requests rq call_next =
     then_io (logger_info (log_before rq))
       (bind_io (call_next rq) (\<lambda>rs.
          then_io (logger_info (log_after rq rs))
            (return_io rs)))"

section \<open>The exception handlers (lines 80-105)\<close>

definition database_exception_handler :: "request \<Rightarrow> exc \<Rightarrow> response" where
  "database_exception_handler rq e =
     JSONResponse HTTP_503_SERVICE_UNAVAILABLE
       (JObj [(''error'',
          JObj [(''code'', JStr ''DATABASE_ERROR''),
                (''message'', JStr ''A database error occurred. Please try again later.'')])])"

definition general_exception_handler :: "request \<Rightarrow> exc \<Rightarrow> response" where
  "general_exception_handler rq e =
     JSONResponse HTTP_500_INTERNAL_SERVER_ERROR
       (JObj [(''error'',
          JObj [(''code'', JStr ''INTERNAL_SERVER_ERROR''),
                (''message'', JStr ''An unexpected error occurred.'')])])"

section \<open>The system endpoints (lines 111-135)\<close>

definition root :: "json io" where
  "root =
     return_io (JObj
       [(''service'', JStr ''Evolution of Todo API''),
        (''version'', JStr ''0.1.0''),
        (''status'', JStr ''running''),
        (''docs'', JStr ''/docs''),
        (''health'', JStr ''/health'')])"

definition health_check :: "json io" where
  "health_check = return_io (JObj [(''status'', JStr ''ok'')])"

definition ping :: "json io" where
  "ping = return_io (JObj [(''ping'', JStr ''pong''), (''cors'', JStr ''enabled'')])"

section \<open>The startup hook (lines 49-77)\<close>

text \<open>
  The database module (\<^verbatim>\<open>app/database.py\<close>) and the SQLAlchemy engine are
  collaborators: each call either returns or raises, and which of the two is a field of
  the record below. \<^verbatim>\<open>engine.url.database\<close> may be \<^verbatim>\<open>None\<close>, which an f-string
  renders as \<^verbatim>\<open>None\<close>.
\<close>

record engine =
  url_database :: "string option"

record database =
  get_engine :: "exc + engine"
  init_db :: "exc + unit"
  connect :: "engine \<Rightarrow> exc + unit"
  execute :: "string \<Rightarrow> exc + unit"

definition db_io :: "db_call \<Rightarrow> exc + 'a \<Rightarrow> 'a io" where
  "db_io c r = (r, [Db c])"

definition py_str :: "string option \<Rightarrow> string" where
  "py_str v = (case v of None \<Rightarrow> ''None'' | Some s \<Rightarrow> s)"

text \<open>
  \<^verbatim>\<open>with engine.connect() as conn: ...\<close>: when the connection was opened it is closed
  on the way out, whether the block returned or raised.
\<close>

definition with_connect :: "database \<Rightarrow> engine \<Rightarrow> 'a io \<Rightarrow> 'a io" where
  "with_connect db eng block =
     bind_io (db_io Connect (connect db eng)) (\<lambda>conn.
       case block of (r, t) \<Rightarrow> (r, t @ [Db Close]))"

text \<open>
  \<^verbatim>\<open>try: ... except Exception as e: ...\<close>: the clause takes an exception only when it
  is an instance of \<^verbatim>\<open>Exception\<close>; any other \<^verbatim>\<open>BaseException\<close> passes through.
\<close>

definition try_except_Exception :: "'a io \<Rightarrow> (exc \<Rightarrow> 'a io) \<Rightarrow> 'a io" where
  "try_except_Exception block handler =
     (case block of
        (Inr x, t) \<Rightarrow> (Inr x, t)
      | (Inl e, t) \<Rightarrow>
          if isinstance e ''Exception''
          then (case handler e of (r, t') \<Rightarrow> (r, t @ t'))
          else (Inl e, t))"

definition rule60 :: string where
  "rule60 = replicate 60 CHR ''=''"

definition startup_try :: "database \<Rightarrow> unit io" where
  "startup_try db =
     bind_io (db_io GetEngine (get_engine db)) (\<lambda>eng.
     then_io (logger_info (check_mark @ '' Database engine created: '' @ py_str (url_database eng)))
    (then_io (db_io InitDb (init_db db))
    (then_io (logger_info (check_mark @ '' Database tables initialized successfully''))
    (then_io (with_connect db eng
               (then_io (db_io (Execute ''SELECT 1'') (execute db ''SELECT 1''))
                        (logger_info (check_mark @ '' Database connection verified''))))
    (then_io (logger_info rule60)
    (then_io (logger_info ''Database initialization complete!'')
             (logger_info rule60)))))))"

definition startup_except :: "exc \<Rightarrow> unit io" where
  "startup_except e =
     then_io (logger_error rule60)
    (then_io (logger_error (ballot_x @ '' Database initialization FAILED: '' @ exc_str e))
    (then_io (logger_error rule60)
             (raise_io e)))"

definition startup_event :: "database \<Rightarrow> unit io" where
  "startup_event db =
     then_io (logger_info rule60)
    (then_io (logger_info ''Starting database initialization...'')
             (try_except_Exception (startup_try db) startup_except))"

text \<open>
  \<^verbatim>\<open>@app.on_event("startup")\<close>: the framework runs the hook before it accepts any
  request; when the hook raises, startup has failed and the server exits without serving.
\<close>

datatype lifecycle = Serving | StartupFailed exc

definition lifespan_startup :: "database \<Rightarrow> lifecycle \<times> event list" where
  "lifespan_startup db =
     (case startup_event db of
        (Inr u, t) \<Rightarrow> (Serving, t)
      | (Inl e, t) \<Rightarrow> (StartupFailed e, t))"

text \<open>The calls into the database module among the events, in order.\<close>

fun db_calls :: "event list \<Rightarrow> db_call list" where
  "db_calls [] = []"
| "db_calls (Db c # evs) = c # db_calls evs"
| "db_calls (Log l m # evs) = db_calls evs"

section \<open>How the framework runs what the module registers\<close>

text \<open>
  The decorators and \<^verbatim>\<open>add_middleware\<close> calls of the module hand its functions to
  FastAPI and Starlette. The definitions of this section follow what the framework does
  with them: a route table searched in order, an exception-handler dictionary searched
  along the exception's MRO, and a stack of middleware around the router.
\<close>

type_synonym handler = "request \<Rightarrow> exc \<Rightarrow> response"

datatype match = NoMatch | Partial | Full

record route =
  matches :: "request \<Rightarrow> match"
  handle :: "request \<Rightarrow> response io"

text \<open>
  What is not in \<^verbatim>\<open>app/main.py\<close>: the task router of \<^verbatim>\<open>app/routers\<close>, and what
  \<^verbatim>\<open>FastAPI(...)\<close> brings before the module registers anything (the documentation
  routes, the handlers for its own exception classes, the answer when no route matches).
\<close>

record collaborators =
  tasks_router :: "route list"
  fastapi_routes :: "route list"
  fastapi_handlers :: "string \<Rightarrow> handler option"
  no_route :: "request \<Rightarrow> response io"

definition PlainTextResponse :: "string \<Rightarrow> nat \<Rightarrow> (string \<times> string) list \<Rightarrow> response" where
  "PlainTextResponse txt sc hs =
     \<lparr>status_code = sc,
      raw_headers = hs @ [(''content-type'', ''text/plain; charset=utf-8'')],
      body = Text txt\<rparr>"

definition HTTPException :: "nat \<Rightarrow> string \<Rightarrow> exc" where
  "HTTPException sc detail =
     \<lparr>exc_mro = [''HTTPException'', ''Exception'', ''BaseException'', ''object''],
      exc_str = str_nat sc @ '': '' @ detail\<rparr>"

subsection \<open>Routes\<close>

text \<open>
  \<^verbatim>\<open>@app.get(path)\<close> on a function without parameters: the path is a literal, GET
  is the only method, and the returned dictionary is sent as a JSON response with status
  200. A request for the path with another method matches partially and is answered 405.
\<close>

definition app_get :: "string \<Rightarrow> json io \<Rightarrow> route" where
  "app_get path endpoint =
     \<lparr>matches = (\<lambda>rq.
        if url_path rq = path
        then (if http_method rq = ''GET'' then Full else Partial)
        else NoMatch),
      handle = (\<lambda>rq.
        if http_method rq = ''GET''
        then bind_io endpoint (\<lambda>c. return_io (JSONResponse 200 c))
        else raise_io (HTTPException 405 ''Method Not Allowed''))\<rparr>"

text \<open>
  The route table in registration order: the framework's own routes, then
  \<^verbatim>\<open>app.include_router(tasks_router)\<close> (line 108), then the three system routes.
\<close>

definition routes :: "collaborators \<Rightarrow> route list" where
  "routes deps =
     fastapi_routes deps @ tasks_router deps @
     [app_get ''/'' root, app_get ''/health'' health_check, app_get ''/api/ping'' ping]"

text \<open>The router: the first full match handles the request, else the first partial one.\<close>

definition router :: "route list \<Rightarrow> (request \<Rightarrow> response io) \<Rightarrow> request \<Rightarrow> response io" where
  "router rts fallback rq =
     (case find (\<lambda>r. matches r rq = Full) rts of
        Some r \<Rightarrow> handle r rq
      | None \<Rightarrow>
          (case find (\<lambda>r. matches r rq = Partial) rts of
             Some r \<Rightarrow> handle r rq
           | None \<Rightarrow> fallback rq))"

subsection \<open>Exception handlers\<close>

text \<open>
  \<^verbatim>\<open>@app.exception_handler(SQLAlchemyError)\<close> and \<^verbatim>\<open>@app.exception_handler(Exception)\<close>
  store the two handlers in the application's dictionary, keyed by class.
\<close>

definition exception_handlers :: "collaborators \<Rightarrow> string \<Rightarrow> handler option" where
  "exception_handlers deps =
     (fastapi_handlers deps)
       (''SQLAlchemyError'' \<mapsto> database_exception_handler,
        ''Exception'' \<mapsto> general_exception_handler)"

text \<open>
  When the stack is built, the handler keyed by \<^verbatim>\<open>Exception\<close> goes to the outermost
  middleware (\<open>ServerErrorMiddleware\<close>); every other entry goes to the innermost one
  (\<open>ExceptionMiddleware\<close>).
\<close>

definition error_handler :: "collaborators \<Rightarrow> handler option" where
  "error_handler deps = exception_handlers deps ''Exception''"

definition inner_handlers :: "collaborators \<Rightarrow> string \<Rightarrow> handler option" where
  "inner_handlers deps = (exception_handlers deps)(''Exception'' := None)"

text \<open>
  The handler of an exception is that of the first class of its MRO that has one. The
  module registers handlers by class only, none by status code.
\<close>

fun lookup_exception_handler :: "(string \<Rightarrow> handler option) \<Rightarrow> string list \<Rightarrow> handler option" where
  "lookup_exception_handler hs [] = None"
| "lookup_exception_handler hs (c # cs) =
     (case hs c of Some h \<Rightarrow> Some h | None \<Rightarrow> lookup_exception_handler hs cs)"

definition ExceptionMiddleware ::
  "(string \<Rightarrow> handler option) \<Rightarrow> (request \<Rightarrow> response io) \<Rightarrow> request \<Rightarrow> response io" where
  "ExceptionMiddleware hs app rq =
     (case app rq of
        (Inr rs, t) \<Rightarrow> (Inr rs, t)
      | (Inl e, t) \<Rightarrow>
          if isinstance e ''Exception''
          then (case lookup_exception_handler hs (exc_mro e) of
                  None \<Rightarrow> (Inl e, t)
                | Some h \<Rightarrow> (Inr (h rq e), t))
          else (Inl e, t))"

text \<open>
  The outermost middleware sends the error handler's response for an exception that got
  this far and raises the exception again, to the server. Without a registered handler
  it sends a plain 500.
\<close>

datatype outcome = Sent response | SentAndRaised response exc | Raised exc

definition ServerErrorMiddleware ::
  "handler option \<Rightarrow> (request \<Rightarrow> response io) \<Rightarrow> request \<Rightarrow> outcome \<times> event list" where
  "ServerErrorMiddleware h app rq =
     (case app rq of
        (Inr rs, t) \<Rightarrow> (Sent rs, t)
      | (Inl e, t) \<Rightarrow>
          if isinstance e ''Exception''
          then (case h of
                  Some f \<Rightarrow> (SentAndRaised (f rq e) e, t)
                | None \<Rightarrow> (SentAndRaised (PlainTextResponse ''Internal Server Error'' 500 []) e, t))
          else (Raised e, t))"

definition client_response :: "outcome \<Rightarrow> response option" where
  "client_response out =
     (case out of Sent rs \<Rightarrow> Some rs | SentAndRaised rs e \<Rightarrow> Some rs | Raised e \<Rightarrow> None)"

subsection \<open>The CORS middleware\<close>

text \<open>
  \<open>CORSMiddleware\<close> as the module instantiates it: no origin pattern is passed, so an
  origin is allowed when the list holds \<^verbatim>\<open>*\<close> or the origin itself. The list of
  allowed headers holds \<^verbatim>\<open>*\<close> (line 35): the headers a preflight request asks for are
  sent back and are never a reason to refuse it. Header names are in lower case, as
  they are on the wire.
\<close>

definition allow_all_origins :: "cors_config \<Rightarrow> bool" where
  "allow_all_origins cfg = (''*'' \<in> set (allow_origins cfg))"

definition allow_all_headers :: "cors_config \<Rightarrow> bool" where
  "allow_all_headers cfg = (''*'' \<in> set (allow_headers cfg))"

definition preflight_explicit_allow_origin :: "cors_config \<Rightarrow> bool" where
  "preflight_explicit_allow_origin cfg =
     (if allow_all_origins cfg then allow_credentials cfg else True)"

definition is_allowed_origin :: "cors_config \<Rightarrow> string \<Rightarrow> bool" where
  "is_allowed_origin cfg origin =
     (if allow_all_origins cfg then True else origin \<in> set (allow_origins cfg))"

fun join_comma :: "string list \<Rightarrow> string" where
  "join_comma [] = []"
| "join_comma [x] = x"
| "join_comma (x # y # zs) = x @ '', '' @ join_comma (y # zs)"

fun set_header :: "string \<Rightarrow> string \<Rightarrow> (string \<times> string) list \<Rightarrow> (string \<times> string) list" where
  "set_header k v [] = [(k, v)]"
| "set_header k v ((k', v') # hs) =
     (if k' = k then (k, v) # filter (\<lambda>p. fst p \<noteq> k) hs
      else (k', v') # set_header k v hs)"

definition add_vary_header :: "string \<Rightarrow> (string \<times> string) list \<Rightarrow> (string \<times> string) list" where
  "add_vary_header v hs =
     (case map_of hs ''vary'' of
        None \<Rightarrow> set_header ''vary'' v hs
      | Some existing \<Rightarrow> set_header ''vary'' (existing @ '', '' @ v) hs)"

definition allow_explicit_origin :: "string \<Rightarrow> (string \<times> string) list \<Rightarrow> (string \<times> string) list" where
  "allow_explicit_origin origin hs =
     add_vary_header ''Origin'' (set_header ''access-control-allow-origin'' origin hs)"

definition simple_headers :: "cors_config \<Rightarrow> (string \<times> string) list" where
  "simple_headers cfg =
     (if allow_all_origins cfg then [(''access-control-allow-origin'', ''*'')] else []) @
     (if allow_credentials cfg then [(''access-control-allow-credentials'', ''true'')] else [])"

definition preflight_headers :: "cors_config \<Rightarrow> (string \<times> string) list" where
  "preflight_headers cfg =
     (if preflight_explicit_allow_origin cfg then [(''vary'', ''Origin'')]
      else [(''access-control-allow-origin'', ''*'')]) @
     [(''access-control-allow-methods'', join_comma (allow_methods cfg)),
      (''access-control-max-age'', ''600'')] @
     (if allow_credentials cfg then [(''access-control-allow-credentials'', ''true'')] else [])"

definition preflight_response ::
  "cors_config \<Rightarrow> string \<Rightarrow> string \<Rightarrow> string option \<Rightarrow> response" where
  "preflight_response cfg requested_origin requested_method requested_headers =
     (let hs0 = preflight_headers cfg;
          hs1 = (if is_allowed_origin cfg requested_origin
                 then (if preflight_explicit_allow_origin cfg
                       then set_header ''access-control-allow-origin'' requested_origin hs0
                       else hs0)
                 else hs0);
          hs2 = (case requested_headers of
                   Some h \<Rightarrow> set_header ''access-control-allow-headers'' h hs1
                 | None \<Rightarrow> hs1);
          failures =
            (if is_allowed_origin cfg requested_origin then [] else [''origin'']) @
            (if requested_method \<in> set (allow_methods cfg) then [] else [''method''])
      in if failures = [] then PlainTextResponse ''OK'' 200 hs2
         else PlainTextResponse (''Disallowed CORS '' @ join_comma failures) 400 hs2)"

definition cors_send :: "cors_config \<Rightarrow> request \<Rightarrow> string \<Rightarrow> response \<Rightarrow> response" where
  "cors_send cfg rq origin rs =
     (let hs = fold (\<lambda>kv. set_header (fst kv) (snd kv)) (simple_headers cfg) (raw_headers rs);
          has_cookie = (map_of (headers rq) ''cookie'' \<noteq> None)
      in rs\<lparr>raw_headers :=
           (if allow_all_origins cfg \<and> has_cookie then allow_explicit_origin origin hs
            else if \<not> allow_all_origins cfg \<and> is_allowed_origin cfg origin
                 then allow_explicit_origin origin hs
            else hs)\<rparr>)"

text \<open>
  A request without an \<^verbatim>\<open>Origin\<close> header passes through untouched. A preflight request
  (\<^verbatim>\<open>OPTIONS\<close> with \<^verbatim>\<open>Access-Control-Request-Method\<close>) is answered here and never
  reaches a route. Any other request is passed on and its response gets the CORS headers.
\<close>

definition is_preflight :: "request \<Rightarrow> bool" where
  "is_preflight rq =
     (map_of (headers rq) ''origin'' \<noteq> None \<and> http_method rq = ''OPTIONS'' \<and>
      map_of (headers rq) ''access-control-request-method'' \<noteq> None)"

definition CORSMiddleware ::
  "cors_config \<Rightarrow> (request \<Rightarrow> response io) \<Rightarrow> request \<Rightarrow> response io" where
  "CORSMiddleware cfg app rq =
     (case map_of (headers rq) ''origin'' of
        None \<Rightarrow> app rq
      | Some origin \<Rightarrow>
          (case (if http_method rq = ''OPTIONS''
                 then map_of (headers rq) ''access-control-request-method'' else None) of
             Some m \<Rightarrow>
               return_io (preflight_response cfg origin m
                  (map_of (headers rq) ''access-control-request-headers''))
           | None \<Rightarrow> bind_io (app rq) (\<lambda>rs. return_io (cors_send cfg rq origin rs))))"

subsection \<open>The application\<close>

text \<open>
  Middleware added later is further out: the logging middleware (line 40) wraps the CORS
  middleware (line 24), which wraps the exception middleware around the router.
\<close>

definition wrapped_by_logging :: "collaborators \<Rightarrow> request \<Rightarrow> response io" where
  "wrapped_by_logging deps =
     CORSMiddleware cors
       (ExceptionMiddleware (inner_handlers deps)
          (router (routes deps) (no_route deps)))"

definition app :: "collaborators \<Rightarrow> request \<Rightarrow> outcome \<times> event list" where
  "app deps =
     ServerErrorMiddleware (error_handler deps)
       (\<lambda>rq. log_requests rq (wrapped_by_logging deps))"

text \<open>A request is handled only by a server whose startup succeeded.\<close>

definition serve ::
  "lifecycle \<Rightarrow> collaborators \<Rightarrow> request \<Rightarrow> (outcome \<times> event list) option" where
  "serve st deps rq = (case st of Serving \<Rightarrow> Some (app deps rq) | StartupFailed e \<Rightarrow> None)"

section \<open>Sample inputs\<close>

text \<open>
  Concrete collaborators and requests on which the theorems below are exercised: a
  driver error of SQLAlchemy, a plain \<^verbatim>\<open>ValueError\<close>, a task route that raises a given
  exception, a framework that handles its own \<^verbatim>\<open>HTTPException\<close> and answers 404 when
  no route matches, and a database that is reachable or not.
\<close>

definition operational_error :: exc where
  "operational_error =
     \<lparr>exc_mro = [''OperationalError'', ''DatabaseError'', ''DBAPIError'', ''StatementError'',
                 ''SQLAlchemyError'', ''HasDescriptionCode'', ''Exception'', ''BaseException'',
                 ''object''],
      exc_str = ''connection refused''\<rparr>"

definition value_error :: exc where
  "value_error =
     \<lparr>exc_mro = [''ValueError'', ''Exception'', ''BaseException'', ''object''],
      exc_str = ''invalid literal''\<rparr>"

definition failing_route :: "exc \<Rightarrow> route" where
  "failing_route e =
     \<lparr>matches = (\<lambda>rq.
        if url_path rq = ''/api/tasks''
        then (if http_method rq = ''GET'' then Full else Partial)
        else NoMatch),
      handle = (\<lambda>rq. raise_io e)\<rparr>"

definition http_exception_handler :: handler where
  "http_exception_handler rq e = JSONResponse 404 (JObj [(''detail'', JStr (exc_str e))])"

definition sample_handlers :: "string \<Rightarrow> handler option" where
  "sample_handlers c = (if c = ''HTTPException'' then Some http_exception_handler else None)"

definition not_found :: "request \<Rightarrow> response io" where
  "not_found rq = raise_io (HTTPException 404 ''Not Found'')"

definition sample_deps :: "exc \<Rightarrow> collaborators" where
  "sample_deps e =
     \<lparr>tasks_router = [failing_route e],
      fastapi_routes = [],
      fastapi_handlers = sample_handlers,
      no_route = not_found\<rparr>"

definition get_tasks :: request where
  "get_tasks =
     \<lparr>http_method = ''GET'', url_path = ''/api/tasks'',
      headers = [(''origin'', ''http://localhost:3000'')]\<rparr>"

definition get_root :: request where
  "get_root = \<lparr>http_method = ''GET'', url_path = ''/'', headers = []\<rparr>"

definition get_health :: request where
  "get_health = \<lparr>http_method = ''GET'', url_path = ''/health'', headers = []\<rparr>"

definition get_ping :: request where
  "get_ping =
     \<lparr>http_method = ''GET'', url_path = ''/api/ping'',
      headers = [(''origin'', ''https://todo-evolution.vercel.app'')]\<rparr>"

definition db_reachable :: database where
  "db_reachable =
     \<lparr>get_engine = Inr \<lparr>url_database = Some ''todo''\<rparr>,
      init_db = Inr (),
      connect = (\<lambda>eng. Inr ()),
      execute = (\<lambda>sql. Inr ())\<rparr>"

definition db_unreachable :: database where
  "db_unreachable =
     \<lparr>get_engine = Inr \<lparr>url_database = Some ''todo''\<rparr>,
      init_db = Inl operational_error,
      connect = (\<lambda>eng. Inl operational_error),
      execute = (\<lambda>sql. Inl operational_error)\<rparr>"

section \<open>Selecting an exception handler\<close>

lemma inner_handlers_apply:
  "inner_handlers deps c =
     (if c = ''Exception'' then None
      else if c = ''SQLAlchemyError'' then Some database_exception_handler
      else fastapi_handlers deps c)"
  by (simp add: inner_handlers_def exception_handlers_def)

lemma lookup_inner_database:
  "lookup_exception_handler (fastapi_handlers deps) cs = None \<Longrightarrow>
   ''SQLAlchemyError'' \<in> set cs \<Longrightarrow>
   lookup_exception_handler (inner_handlers deps) cs = Some database_exception_handler"
proof (induction cs)
  case Nil
  then show ?case by simp
next
  case (Cons c cs)
  from Cons.prems(1) have c: "fastapi_handlers deps c = None"
    and rest: "lookup_exception_handler (fastapi_handlers deps) cs = None"
    by (auto split: option.splits)
  show ?case
  proof (cases "c = ''SQLAlchemyError''")
    case True
    then show ?thesis by (simp add: inner_handlers_apply)
  next
    case False
    with Cons.prems(2) have "''SQLAlchemyError'' \<in> set cs" by simp
    with Cons.IH rest have "lookup_exception_handler (inner_handlers deps) cs = Some database_exception_handler"
      by simp
    moreover from c False have "inner_handlers deps c = None"
      by (simp add: inner_handlers_apply)
    ultimately show ?thesis by simp
  qed
qed

lemma lookup_inner_none:
  "lookup_exception_handler (fastapi_handlers deps) cs = None \<Longrightarrow>
   ''SQLAlchemyError'' \<notin> set cs \<Longrightarrow>
   lookup_exception_handler (inner_handlers deps) cs = None"
proof (induction cs)
  case Nil
  then show ?case by simp
next
  case (Cons c cs)
  from Cons.prems(1) have c: "fastapi_handlers deps c = None"
    and rest: "lookup_exception_handler (fastapi_handlers deps) cs = None"
    by (auto split: option.splits)
  from Cons.prems(2) have ne: "c \<noteq> ''SQLAlchemyError''" and "''SQLAlchemyError'' \<notin> set cs"
    by auto
  with Cons.IH rest have "lookup_exception_handler (inner_handlers deps) cs = None" by simp
  moreover from c ne have "inner_handlers deps c = None"
    by (simp add: inner_handlers_apply)
  ultimately show ?case by simp
qed

lemma error_handler_general: "error_handler deps = Some general_exception_handler"
  by (simp add: error_handler_def exception_handlers_def)

lemma CORSMiddleware_not_preflight:
  "\<not> is_preflight rq \<Longrightarrow>
   CORSMiddleware cfg inner rq =
     (case map_of (headers rq) ''origin'' of
        None \<Rightarrow> inner rq
      | Some origin \<Rightarrow> bind_io (inner rq) (\<lambda>rs. return_io (cors_send cfg rq origin rs)))"
  by (auto simp: CORSMiddleware_def is_preflight_def split: option.splits)

lemma cors_send_status: "status_code (cors_send cfg rq origin rs) = status_code rs"
  by (simp add: cors_send_def Let_def)

lemma cors_send_body: "body (cors_send cfg rq origin rs) = body rs"
  by (simp add: cors_send_def Let_def)

lemma sample_not_preflight: "\<not> is_preflight get_tasks"
  by (simp add: is_preflight_def get_tasks_def)

lemma sample_router_raises:
  "router (routes (sample_deps e)) (no_route (sample_deps e)) get_tasks = (Inl e, [])"
  by (simp add: router_def routes_def sample_deps_def failing_route_def get_tasks_def raise_io_def)

lemma sample_unclaimed_operational:
  "lookup_exception_handler (fastapi_handlers (sample_deps e)) (exc_mro operational_error) = None"
  by (simp add: sample_deps_def sample_handlers_def operational_error_def)

lemma sample_unclaimed_value:
  "lookup_exception_handler (fastapi_handlers (sample_deps e)) (exc_mro value_error) = None"
  by (simp add: sample_deps_def sample_handlers_def value_error_def)

section \<open>Error translation\<close>

text \<open>
  C1. A request that reaches a route (it is not a CORS preflight, which the CORS
  middleware answers itself) and whose handling raises a persistence-layer error, an
  instance of \<^verbatim>\<open>SQLAlchemyError\<close> and so of \<^verbatim>\<open>Exception\<close>, that no handler of the
  framework's own takes, is answered with status 503 and the \<^verbatim>\<open>DATABASE_ERROR\<close>
  body. The handler chosen is the database one; the response is sent by the inner
  exception middleware, so the handler for \<^verbatim>\<open>Exception\<close> of the outermost middleware
  never sees the error.
\<close>

theorem persistence_error_gives_503:
  assumes "\<not> is_preflight rq"
    and "router (routes deps) (no_route deps) rq = (Inl e, t)"
    and "isinstance e ''SQLAlchemyError''"
    and "isinstance e ''Exception''"
    and "lookup_exception_handler (fastapi_handlers deps) (exc_mro e) = None"
  shows "lookup_exception_handler (inner_handlers deps) (exc_mro e) = Some database_exception_handler \<and>
         (\<exists>rs. fst (app deps rq) = Sent rs \<and>
           status_code rs = 503 \<and>
           body rs = JSON (JObj [(''error'',
             JObj [(''code'', JStr ''DATABASE_ERROR''),
                   (''message'', JStr ''A database error occurred. Please try again later.'')])]))"
proof -
  have h: "lookup_exception_handler (inner_handlers deps) (exc_mro e) = Some database_exception_handler"
    using assms(3,5) by (simp add: lookup_inner_database isinstance_def)
  have em: "ExceptionMiddleware (inner_handlers deps) (router (routes deps) (no_route deps)) rq
       = (Inr (database_exception_handler rq e), t)"
    using assms(2,4) h by (simp add: ExceptionMiddleware_def)
  show ?thesis
    using assms(1) em h
    by (cases "map_of (headers rq) ''origin''")
       (simp_all add: app_def ServerErrorMiddleware_def log_requests_def wrapped_by_logging_def
        CORSMiddleware_not_preflight then_io_def bind_io_def return_io_def logger_info_def emit_def
        cors_send_status cors_send_body database_exception_handler_def JSONResponse_def
        HTTP_503_SERVICE_UNAVAILABLE_def)
qed

theorem persistence_error_gives_503_witness:
  "\<not> is_preflight get_tasks \<and>
   router (routes (sample_deps operational_error)) (no_route (sample_deps operational_error))
     get_tasks = (Inl operational_error, []) \<and>
   isinstance operational_error ''SQLAlchemyError'' \<and>
   isinstance operational_error ''Exception'' \<and>
   lookup_exception_handler (fastapi_handlers (sample_deps operational_error))
     (exc_mro operational_error) = None \<and>
   (\<exists>rs. fst (app (sample_deps operational_error) get_tasks) = Sent rs \<and>
      status_code rs = 503 \<and>
      body rs = JSON (JObj [(''error'',
        JObj [(''code'', JStr ''DATABASE_ERROR''),
              (''message'', JStr ''A database error occurred. Please try again later.'')])]))"
proof -
  have a: "isinstance operational_error ''SQLAlchemyError''"
    by (simp add: isinstance_def operational_error_def)
  have b: "isinstance operational_error ''Exception''"
    by (simp add: isinstance_def operational_error_def)
  show ?thesis
    using persistence_error_gives_503 [OF sample_not_preflight sample_router_raises a b
        sample_unclaimed_operational]
      sample_not_preflight sample_router_raises a b sample_unclaimed_operational
    by blast
qed

text \<open>
  C2. A request that reaches a route and whose handling raises an error (an instance of
  \<^verbatim>\<open>Exception\<close>) that is not a persistence-layer error and that no handler of the
  framework's own takes is answered with status 500 and the
  \<^verbatim>\<open>INTERNAL_SERVER_ERROR\<close> body; the exception is then raised again to the server.
\<close>

theorem other_error_gives_500:
  assumes "\<not> is_preflight rq"
    and "router (routes deps) (no_route deps) rq = (Inl e, t)"
    and "isinstance e ''Exception''"
    and "\<not> isinstance e ''SQLAlchemyError''"
    and "lookup_exception_handler (fastapi_handlers deps) (exc_mro e) = None"
  shows "fst (app deps rq) = SentAndRaised (general_exception_handler rq e) e \<and>
         (\<exists>rs. client_response (fst (app deps rq)) = Some rs \<and>
           status_code rs = 500 \<and>
           body rs = JSON (JObj [(''error'',
             JObj [(''code'', JStr ''INTERNAL_SERVER_ERROR''),
                   (''message'', JStr ''An unexpected error occurred.'')])]))"
proof -
  have h: "lookup_exception_handler (inner_handlers deps) (exc_mro e) = None"
    using assms(4,5) by (simp add: lookup_inner_none isinstance_def)
  have em: "ExceptionMiddleware (inner_handlers deps) (router (routes deps) (no_route deps)) rq
       = (Inl e, t)"
    using assms(2,3) h by (simp add: ExceptionMiddleware_def)
  have out: "fst (app deps rq) = SentAndRaised (general_exception_handler rq e) e"
    using assms(1,3) em
    by (cases "map_of (headers rq) ''origin''")
       (simp_all add: app_def ServerErrorMiddleware_def log_requests_def wrapped_by_logging_def
        CORSMiddleware_not_preflight then_io_def bind_io_def return_io_def logger_info_def emit_def
        error_handler_general)
  show ?thesis
    by (simp add: out client_response_def general_exception_handler_def JSONResponse_def
        HTTP_500_INTERNAL_SERVER_ERROR_def)
qed

theorem other_error_gives_500_witness:
  "\<not> is_preflight get_tasks \<and>
   router (routes (sample_deps value_error)) (no_route (sample_deps value_error))
     get_tasks = (Inl value_error, []) \<and>
   isinstance value_error ''Exception'' \<and>
   \<not> isinstance value_error ''SQLAlchemyError'' \<and>
   lookup_exception_handler (fastapi_handlers (sample_deps value_error))
     (exc_mro value_error) = None \<and>
   fst (app (sample_deps value_error) get_tasks)
     = SentAndRaised (general_exception_handler get_tasks value_error) value_error \<and>
   (\<exists>rs. client_response (fst (app (sample_deps value_error) get_tasks)) = Some rs \<and>
      status_code rs = 500 \<and>
      body rs = JSON (JObj [(''error'',
        JObj [(''code'', JStr ''INTERNAL_SERVER_ERROR''),
              (''message'', JStr ''An unexpected error occurred.'')])]))"
proof -
  have a: "isinstance value_error ''Exception''"
    by (simp add: isinstance_def value_error_def)
  have b: "\<not> isinstance value_error ''SQLAlchemyError''"
    by (simp add: isinstance_def value_error_def)
  show ?thesis
    using other_error_gives_500 [OF sample_not_preflight sample_router_raises a b
        sample_unclaimed_value]
      sample_not_preflight sample_router_raises a b sample_unclaimed_value
    by blast
qed

text \<open>
  C5. The two translators are constant functions: whatever the request and the
  exception, each returns one fixed response, whose status and body are literals of the
  source. Nothing of the request or of the exception reaches the client through them.
\<close>

theorem error_responses_constant:
  "database_exception_handler rq1 e1 = database_exception_handler rq2 e2 \<and>
   general_exception_handler rq1 e1 = general_exception_handler rq2 e2 \<and>
   status_code (database_exception_handler rq1 e1) = 503 \<and>
   body (database_exception_handler rq1 e1) =
     JSON (JObj [(''error'',
       JObj [(''code'', JStr ''DATABASE_ERROR''),
             (''message'', JStr ''A database error occurred. Please try again later.'')])]) \<and>
   status_code (general_exception_handler rq1 e1) = 500 \<and>
   body (general_exception_handler rq1 e1) =
     JSON (JObj [(''error'',
       JObj [(''code'', JStr ''INTERNAL_SERVER_ERROR''),
             (''message'', JStr ''An unexpected error occurred.'')])])"
  by (simp add: database_exception_handler_def general_exception_handler_def JSONResponse_def
      HTTP_503_SERVICE_UNAVAILABLE_def HTTP_500_INTERNAL_SERVER_ERROR_def)

section \<open>The logging middleware\<close>

lemma db_calls_append: "db_calls (xs @ ys) = db_calls xs @ db_calls ys"
  by (induction xs rule: db_calls.induct) simp_all

text \<open>
  C4, as amended. The middleware emits one line before dispatch, with the method and the
  path. When the wrapped chain returns a response, it emits one line after, with the method,
  the path and the status code of that response, after everything the chain emitted. When the wrapped chain raises, the line before is the only one and the
  exception propagates.
\<close>

theorem log_requests_lines:
  "log_requests rq call_next =
     (case call_next rq of
        (Inr rs, t) \<Rightarrow>
          (Inr rs,
           [Log INFO (rightwards_arrow @ '' '' @ http_method rq @ '' '' @ url_path rq)] @ t @
           [Log INFO (leftwards_arrow @ '' '' @ http_method rq @ '' '' @ url_path rq @ '' '' @
                      rightwards_arrow @ '' '' @ str_nat (status_code rs))])
      | (Inl e, t) \<Rightarrow>
          (Inl e, [Log INFO (rightwards_arrow @ '' '' @ http_method rq @ '' '' @ url_path rq)] @ t))"
  by (simp add: log_requests_def then_io_def bind_io_def return_io_def logger_info_def emit_def
      log_before_def log_after_def split: prod.splits sum.splits)

text \<open>
  The claim as stated fails when a route raises an error that only the outermost
  middleware translates: the client is answered 500, and the only line logged for the
  request is the one before dispatch.
\<close>

theorem no_line_after_unhandled_error:
  "client_response (fst (app (sample_deps value_error) get_tasks))
     = Some (general_exception_handler get_tasks value_error) \<and>
   status_code (general_exception_handler get_tasks value_error) = 500 \<and>
   log_requests get_tasks (wrapped_by_logging (sample_deps value_error))
     = (Inl value_error, [Log INFO (rightwards_arrow @ '' GET /api/tasks'')]) \<and>
   snd (app (sample_deps value_error) get_tasks)
     = [Log INFO (rightwards_arrow @ '' GET /api/tasks'')] \<and>
   Log INFO (log_after get_tasks (general_exception_handler get_tasks value_error))
     \<notin> set (snd (app (sample_deps value_error) get_tasks))"
  by (simp add: app_def ServerErrorMiddleware_def log_requests_def wrapped_by_logging_def
      CORSMiddleware_def ExceptionMiddleware_def router_def routes_def sample_deps_def
      failing_route_def get_tasks_def raise_io_def then_io_def bind_io_def return_io_def
      logger_info_def emit_def log_before_def log_after_def isinstance_def value_error_def
      inner_handlers_def exception_handlers_def error_handler_def sample_handlers_def
      client_response_def general_exception_handler_def JSONResponse_def
      HTTP_500_INTERNAL_SERVER_ERROR_def)

text \<open>
  C10. The middleware returns what the wrapped chain returns: the same response, with
  its status code, headers and body, or the same exception. Among the events of the
  request it adds log records only.
\<close>

theorem log_requests_returns_downstream:
  "fst (log_requests rq call_next) = fst (call_next rq) \<and>
   db_calls (snd (log_requests rq call_next)) = db_calls (snd (call_next rq))"
  by (simp add: log_requests_def then_io_def bind_io_def return_io_def logger_info_def emit_def
      db_calls_append split: prod.splits sum.splits)

section \<open>Startup\<close>

lemmas io_defs = then_io_def bind_io_def return_io_def raise_io_def emit_def
  logger_info_def logger_error_def db_io_def

lemmas startup_defs = startup_event_def startup_try_def startup_except_def
  try_except_Exception_def with_connect_def

lemma startup_db_calls:
  "db_calls (snd (startup_event db)) =
     (case get_engine db of
        Inl e \<Rightarrow> [GetEngine]
      | Inr eng \<Rightarrow>
          (case init_db db of
             Inl e \<Rightarrow> [GetEngine, InitDb]
           | Inr u \<Rightarrow>
               (case connect db eng of
                  Inl e \<Rightarrow> [GetEngine, InitDb, Connect]
                | Inr c \<Rightarrow> [GetEngine, InitDb, Connect, Execute ''SELECT 1'', Close])))"
  by (simp add: startup_defs io_defs split: sum.splits prod.splits)

lemma startup_result:
  "fst (startup_event db) =
     (case get_engine db of
        Inl e \<Rightarrow> Inl e
      | Inr eng \<Rightarrow>
          (case init_db db of
             Inl e \<Rightarrow> Inl e
           | Inr u \<Rightarrow>
               (case connect db eng of
                  Inl e \<Rightarrow> Inl e
                | Inr c \<Rightarrow>
                    (case execute db ''SELECT 1'' of
                       Inl e \<Rightarrow> Inl e
                     | Inr x \<Rightarrow> Inr ()))))"
  by (simp add: startup_defs io_defs split: sum.splits prod.splits)

lemma try_except_logged:
  assumes "fst (try_except_Exception block startup_except) = Inl e"
    and "isinstance e ''Exception''"
  shows "\<exists>t. snd (try_except_Exception block startup_except) =
           t @ [Log ERROR rule60,
                Log ERROR (ballot_x @ '' Database initialization FAILED: '' @ exc_str e),
                Log ERROR rule60]"
proof (cases block)
  case (Pair r t)
  show ?thesis
  proof (cases r)
    case (Inl e')
    with Pair assms show ?thesis
      by (auto simp: try_except_Exception_def startup_except_def io_defs split: if_splits)
  next
    case (Inr x)
    with Pair assms show ?thesis by (simp add: try_except_Exception_def)
  qed
qed

lemma startup_failure_logged:
  assumes "fst (startup_event db) = Inl e" and "isinstance e ''Exception''"
  shows "\<exists>t. snd (startup_event db) =
           t @ [Log ERROR rule60,
                Log ERROR (ballot_x @ '' Database initialization FAILED: '' @ exc_str e),
                Log ERROR rule60]"
proof -
  obtain r t where rt: "try_except_Exception (startup_try db) startup_except = (r, t)"
    by (cases "try_except_Exception (startup_try db) startup_except")
  from assms(1) rt have "r = Inl e"
    by (simp add: startup_event_def io_defs)
  with rt have "fst (try_except_Exception (startup_try db) startup_except) = Inl e" by simp
  from try_except_logged [OF this assms(2)] rt obtain t' where
    "t = t' @ [Log ERROR rule60,
                Log ERROR (ballot_x @ '' Database initialization FAILED: '' @ exc_str e),
                Log ERROR rule60]" by auto
  with rt show ?thesis
    by (simp add: startup_event_def io_defs)
qed

lemma lifespan_result:
  "fst (lifespan_startup db) =
     (case fst (startup_event db) of Inr u \<Rightarrow> Serving | Inl e \<Rightarrow> StartupFailed e)"
  by (simp add: lifespan_startup_def split: prod.splits sum.splits)

lemma serve_iff_serving: "(serve st deps rq \<noteq> None) = (st = Serving)"
  by (simp add: serve_def split: lifecycle.splits)

text \<open>
  C3. The startup hook calls the database module in this order and no other: the engine
  handle, \<^verbatim>\<open>init_db\<close>, a connection on which it executes \<^verbatim>\<open>SELECT 1\<close> (and which it
  closes). It stops at the first call that raises, and the exception that leaves the
  hook is the one that call raised. When that exception is an instance of
  \<^verbatim>\<open>Exception\<close>, as every error is, the last records logged are the three ERROR lines
  with its text. The server is \<open>Serving\<close> exactly when the hook returned, and a request
  is handled exactly when every step succeeded.
\<close>

theorem startup_sequence:
  "db_calls (snd (startup_event db)) =
     (case get_engine db of
        Inl x \<Rightarrow> [GetEngine]
      | Inr eng \<Rightarrow>
          (case init_db db of
             Inl x \<Rightarrow> [GetEngine, InitDb]
           | Inr u \<Rightarrow>
               (case connect db eng of
                  Inl x \<Rightarrow> [GetEngine, InitDb, Connect]
                | Inr c \<Rightarrow> [GetEngine, InitDb, Connect, Execute ''SELECT 1'', Close]))) \<and>
   fst (startup_event db) =
     (case get_engine db of
        Inl x \<Rightarrow> Inl x
      | Inr eng \<Rightarrow>
          (case init_db db of
             Inl x \<Rightarrow> Inl x
           | Inr u \<Rightarrow>
               (case connect db eng of
                  Inl x \<Rightarrow> Inl x
                | Inr c \<Rightarrow>
                    (case execute db ''SELECT 1'' of
                       Inl x \<Rightarrow> Inl x
                     | Inr y \<Rightarrow> Inr ())))) \<and>
   (fst (startup_event db) = Inl e \<and> isinstance e ''Exception'' \<longrightarrow>
      (\<exists>t. snd (startup_event db) =
         t @ [Log ERROR rule60,
              Log ERROR (ballot_x @ '' Database initialization FAILED: '' @ exc_str e),
              Log ERROR rule60])) \<and>
   fst (lifespan_startup db) =
     (case fst (startup_event db) of Inr u \<Rightarrow> Serving | Inl x \<Rightarrow> StartupFailed x) \<and>
   (serve (fst (lifespan_startup db)) deps rq \<noteq> None) =
     (\<exists>eng. get_engine db = Inr eng \<and> init_db db = Inr () \<and> connect db eng = Inr () \<and>
        execute db ''SELECT 1'' = Inr ())"
proof -
  have "(fst (lifespan_startup db) = Serving) =
     (\<exists>eng. get_engine db = Inr eng \<and> init_db db = Inr () \<and> connect db eng = Inr () \<and>
        execute db ''SELECT 1'' = Inr ())"
    by (simp add: lifespan_result startup_result split: sum.splits)
  then show ?thesis
    using startup_failure_logged [of db e]
    by (simp only: startup_db_calls startup_result lifespan_result serve_iff_serving) blast
qed

theorem startup_sequence_witness:
  "fst (startup_event db_unreachable) = Inl operational_error \<and>
   isinstance operational_error ''Exception'' \<and>
   db_calls (snd (startup_event db_unreachable)) = [GetEngine, InitDb] \<and>
   (\<exists>t. snd (startup_event db_unreachable) =
      t @ [Log ERROR rule60,
           Log ERROR (ballot_x @ '' Database initialization FAILED: connection refused''),
           Log ERROR rule60]) \<and>
   fst (lifespan_startup db_unreachable) = StartupFailed operational_error \<and>
   serve (fst (lifespan_startup db_unreachable)) (sample_deps value_error) get_health = None \<and>
   fst (startup_event db_reachable) = Inr () \<and>
   db_calls (snd (startup_event db_reachable))
     = [GetEngine, InitDb, Connect, Execute ''SELECT 1'', Close] \<and>
   fst (lifespan_startup db_reachable) = Serving \<and>
   serve (fst (lifespan_startup db_reachable)) (sample_deps value_error) get_health \<noteq> None"
proof -
  have i: "isinstance operational_error ''Exception''"
    by (simp add: isinstance_def operational_error_def)
  have s: "exc_str operational_error = ''connection refused''"
    by (simp add: operational_error_def)
  note bad = startup_sequence [of db_unreachable operational_error "sample_deps value_error" get_health]
  note good = startup_sequence [of db_reachable operational_error "sample_deps value_error" get_health]
  have b1: "fst (startup_event db_unreachable) = Inl operational_error"
    using bad by (simp add: db_unreachable_def)
  have b2: "db_calls (snd (startup_event db_unreachable)) = [GetEngine, InitDb]"
    using bad by (simp add: db_unreachable_def)
  have b3: "\<exists>t. snd (startup_event db_unreachable) =
      t @ [Log ERROR rule60,
           Log ERROR (ballot_x @ '' Database initialization FAILED: connection refused''),
           Log ERROR rule60]"
    using bad b1 i s by simp
  have b4: "fst (lifespan_startup db_unreachable) = StartupFailed operational_error"
    using bad b1 by simp
  have b5: "serve (fst (lifespan_startup db_unreachable)) (sample_deps value_error) get_health = None"
    using b4 by (simp add: serve_def)
  have g1: "fst (startup_event db_reachable) = Inr ()"
    using good by (simp add: db_reachable_def)
  have g2: "db_calls (snd (startup_event db_reachable))
     = [GetEngine, InitDb, Connect, Execute ''SELECT 1'', Close]"
    using good by (simp add: db_reachable_def)
  have g3: "fst (lifespan_startup db_reachable) = Serving"
    using good g1 by simp
  have g4: "serve (fst (lifespan_startup db_reachable)) (sample_deps value_error) get_health \<noteq> None"
    using g3 by (simp add: serve_def)
  show ?thesis
    using i b1 b2 b3 b4 b5 g1 g2 g3 g4 by blast
qed

section \<open>The system endpoints\<close>

lemma find_app: "find P (xs @ ys) = (case find P xs of None \<Rightarrow> find P ys | Some x \<Rightarrow> Some x)"
  by (induction xs) simp_all

lemma get_not_preflight: "http_method rq = ''GET'' \<Longrightarrow> \<not> is_preflight rq"
  by (simp add: is_preflight_def)

lemma app_returns:
  assumes "http_method rq = ''GET''"
    and "router (routes deps) (no_route deps) rq = (Inr (JSONResponse 200 c), [])"
  shows "\<exists>rs. app deps rq =
           (Sent rs,
            [Log INFO (rightwards_arrow @ '' GET '' @ url_path rq),
             Log INFO (leftwards_arrow @ '' GET '' @ url_path rq @ '' '' @ rightwards_arrow @ '' 200'')]) \<and>
           status_code rs = 200 \<and> body rs = JSON c"
proof -
  have em: "ExceptionMiddleware (inner_handlers deps) (router (routes deps) (no_route deps)) rq
      = (Inr (JSONResponse 200 c), [])"
    using assms(2) by (simp add: ExceptionMiddleware_def)
  have np: "\<not> is_preflight rq" using assms(1) by (rule get_not_preflight)
  show ?thesis
  proof (cases "map_of (headers rq) ''origin''")
    case None
    with em np assms(1) show ?thesis
      by (simp add: app_def ServerErrorMiddleware_def log_requests_def wrapped_by_logging_def
          CORSMiddleware_not_preflight io_defs log_before_def log_after_def JSONResponse_def
          digit_def)
  next
    case (Some origin)
    with em np assms(1) show ?thesis
      by (simp add: app_def ServerErrorMiddleware_def log_requests_def wrapped_by_logging_def
          CORSMiddleware_not_preflight io_defs log_before_def log_after_def
          cors_send_status cors_send_body JSONResponse_def digit_def)
  qed
qed

lemma router_system_route:
  assumes "http_method rq = ''GET''"
    and "find (\<lambda>r. matches r rq = Full) (fastapi_routes deps @ tasks_router deps) = None"
  shows "url_path rq = ''/'' \<Longrightarrow>
           router (routes deps) (no_route deps) rq = bind_io root (\<lambda>c. return_io (JSONResponse 200 c))"
    and "url_path rq = ''/health'' \<Longrightarrow>
           router (routes deps) (no_route deps) rq = bind_io health_check (\<lambda>c. return_io (JSONResponse 200 c))"
    and "url_path rq = ''/api/ping'' \<Longrightarrow>
           router (routes deps) (no_route deps) rq = bind_io ping (\<lambda>c. return_io (JSONResponse 200 c))"
  using assms
  by (simp_all add: router_def routes_def find_app app_get_def
      flip: append_assoc)

lemma sample_no_earlier_route:
  "url_path rq \<noteq> ''/api/tasks'' \<Longrightarrow>
   find (\<lambda>r. matches r rq = Full)
     (fastapi_routes (sample_deps e) @ tasks_router (sample_deps e)) = None"
  by (simp add: sample_deps_def failing_route_def)

text \<open>
  C6. \<^verbatim>\<open>health_check\<close> returns its dictionary without raising and without emitting
  any event. On a server that is up, a GET request for \<^verbatim>\<open>/health\<close> that no route
  registered earlier (the framework's or the task router's) takes is answered 200 with
  the body \<^verbatim>\<open>{"status":"ok"}\<close>, and the two lines of the logging middleware are the
  only events of the request.
\<close>

theorem health_check_ok:
  assumes "http_method rq = ''GET''" and "url_path rq = ''/health''"
    and "find (\<lambda>r. matches r rq = Full) (fastapi_routes deps @ tasks_router deps) = None"
  shows "health_check = (Inr (JObj [(''status'', JStr ''ok'')]), []) \<and>
         (\<exists>rs. serve Serving deps rq =
            Some (Sent rs,
              [Log INFO (rightwards_arrow @ '' GET /health''),
               Log INFO (leftwards_arrow @ '' GET /health '' @ rightwards_arrow @ '' 200'')]) \<and>
            status_code rs = 200 \<and>
            body rs = JSON (JObj [(''status'', JStr ''ok'')]))"
proof -
  have r: "router (routes deps) (no_route deps) rq
      = (Inr (JSONResponse 200 (JObj [(''status'', JStr ''ok'')])), [])"
    using router_system_route(2) [OF assms(1,3,2)]
    by (simp add: health_check_def io_defs)
  from app_returns [OF assms(1) r] assms(2) show ?thesis
    by (simp add: serve_def health_check_def return_io_def)
qed

theorem health_check_ok_witness:
  "http_method get_health = ''GET'' \<and> url_path get_health = ''/health'' \<and>
   find (\<lambda>r. matches r get_health = Full)
     (fastapi_routes (sample_deps value_error) @ tasks_router (sample_deps value_error)) = None \<and>
   (\<exists>rs. serve Serving (sample_deps value_error) get_health =
      Some (Sent rs,
        [Log INFO (rightwards_arrow @ '' GET /health''),
         Log INFO (leftwards_arrow @ '' GET /health '' @ rightwards_arrow @ '' 200'')]) \<and>
      status_code rs = 200 \<and>
      body rs = JSON (JObj [(''status'', JStr ''ok'')]))"
proof -
  have m: "http_method get_health = ''GET''" and p: "url_path get_health = ''/health''"
    by (simp_all add: get_health_def)
  have f: "find (\<lambda>r. matches r get_health = Full)
     (fastapi_routes (sample_deps value_error) @ tasks_router (sample_deps value_error)) = None"
    by (rule sample_no_earlier_route) (simp add: p)
  show ?thesis
    using health_check_ok [OF m p f] m p f by blast
qed

text \<open>
  C7. \<^verbatim>\<open>ping\<close> returns its dictionary without raising and without emitting any event.
  A GET request for \<^verbatim>\<open>/api/ping\<close> that no earlier route takes is answered 200 with the
  body \<^verbatim>\<open>{"ping":"pong","cors":"enabled"}\<close>, whatever its headers: no credentials are
  looked at and no parameter is read.
\<close>

theorem ping_ok:
  assumes "http_method rq = ''GET''" and "url_path rq = ''/api/ping''"
    and "find (\<lambda>r. matches r rq = Full) (fastapi_routes deps @ tasks_router deps) = None"
  shows "ping = (Inr (JObj [(''ping'', JStr ''pong''), (''cors'', JStr ''enabled'')]), []) \<and>
         (\<exists>rs. app deps rq =
            (Sent rs,
              [Log INFO (rightwards_arrow @ '' GET /api/ping''),
               Log INFO (leftwards_arrow @ '' GET /api/ping '' @ rightwards_arrow @ '' 200'')]) \<and>
            status_code rs = 200 \<and>
            body rs = JSON (JObj [(''ping'', JStr ''pong''), (''cors'', JStr ''enabled'')]))"
proof -
  have r: "router (routes deps) (no_route deps) rq
      = (Inr (JSONResponse 200 (JObj [(''ping'', JStr ''pong''), (''cors'', JStr ''enabled'')])), [])"
    using router_system_route(3) [OF assms(1,3,2)]
    by (simp add: ping_def io_defs)
  from app_returns [OF assms(1) r] assms(2) show ?thesis
    by (simp add: ping_def return_io_def)
qed

theorem ping_ok_witness:
  "http_method get_ping = ''GET'' \<and> url_path get_ping = ''/api/ping'' \<and>
   find (\<lambda>r. matches r get_ping = Full)
     (fastapi_routes (sample_deps value_error) @ tasks_router (sample_deps value_error)) = None \<and>
   (\<exists>rs. app (sample_deps value_error) get_ping =
      (Sent rs,
        [Log INFO (rightwards_arrow @ '' GET /api/ping''),
         Log INFO (leftwards_arrow @ '' GET /api/ping '' @ rightwards_arrow @ '' 200'')]) \<and>
      status_code rs = 200 \<and>
      body rs = JSON (JObj [(''ping'', JStr ''pong''), (''cors'', JStr ''enabled'')]))"
proof -
  have m: "http_method get_ping = ''GET''" and p: "url_path get_ping = ''/api/ping''"
    by (simp_all add: get_ping_def)
  have f: "find (\<lambda>r. matches r get_ping = Full)
     (fastapi_routes (sample_deps value_error) @ tasks_router (sample_deps value_error)) = None"
    by (rule sample_no_earlier_route) (simp add: p)
  show ?thesis
    using ping_ok [OF m p f] m p f by blast
qed

text \<open>
  C8. \<^verbatim>\<open>root\<close> returns one fixed object with the fields service, version, status,
  docs and health, in this order, with the literal values of the source, without raising
  and without emitting any event. A GET request for \<^verbatim>\<open>/\<close> that no earlier route takes
  is answered 200 with that object.
\<close>

theorem root_ok:
  assumes "http_method rq = ''GET''" and "url_path rq = ''/''"
    and "find (\<lambda>r. matches r rq = Full) (fastapi_routes deps @ tasks_router deps) = None"
  shows "root = (Inr (JObj
            [(''service'', JStr ''Evolution of Todo API''),
             (''version'', JStr ''0.1.0''),
             (''status'', JStr ''running''),
             (''docs'', JStr ''/docs''),
             (''health'', JStr ''/health'')]), []) \<and>
         (\<exists>rs. app deps rq =
            (Sent rs,
              [Log INFO (rightwards_arrow @ '' GET /''),
               Log INFO (leftwards_arrow @ '' GET / '' @ rightwards_arrow @ '' 200'')]) \<and>
            status_code rs = 200 \<and>
            body rs = JSON (JObj
              [(''service'', JStr ''Evolution of Todo API''),
               (''version'', JStr ''0.1.0''),
               (''status'', JStr ''running''),
               (''docs'', JStr ''/docs''),
               (''health'', JStr ''/health'')]))"
proof -
  have r: "router (routes deps) (no_route deps) rq
      = (Inr (JSONResponse 200 (JObj
              [(''service'', JStr ''Evolution of Todo API''),
               (''version'', JStr ''0.1.0''),
               (''status'', JStr ''running''),
               (''docs'', JStr ''/docs''),
               (''health'', JStr ''/health'')])), [])"
    using router_system_route(1) [OF assms(1,3,2)]
    by (simp add: root_def io_defs)
  from app_returns [OF assms(1) r] assms(2) show ?thesis
    by (simp add: root_def return_io_def)
qed

theorem root_ok_witness:
  "http_method get_root = ''GET'' \<and> url_path get_root = ''/'' \<and>
   find (\<lambda>r. matches r get_root = Full)
     (fastapi_routes (sample_deps value_error) @ tasks_router (sample_deps value_error)) = None \<and>
   (\<exists>rs. app (sample_deps value_error) get_root =
      (Sent rs,
        [Log INFO (rightwards_arrow @ '' GET /''),
         Log INFO (leftwards_arrow @ '' GET / '' @ rightwards_arrow @ '' 200'')]) \<and>
      status_code rs = 200 \<and>
      body rs = JSON (JObj
        [(''service'', JStr ''Evolution of Todo API''),
         (''version'', JStr ''0.1.0''),
         (''status'', JStr ''running''),
         (''docs'', JStr ''/docs''),
         (''health'', JStr ''/health'')]))"
proof -
  have m: "http_method get_root = ''GET''" and p: "url_path get_root = ''/''"
    by (simp_all add: get_root_def)
  have f: "find (\<lambda>r. matches r get_root = Full)
     (fastapi_routes (sample_deps value_error) @ tasks_router (sample_deps value_error)) = None"
    by (rule sample_no_earlier_route) (simp add: p)
  show ?thesis
    using root_ok [OF m p f] m p f by blast
qed

section \<open>The CORS policy\<close>

lemma map_of_filter_other:
  "k' \<noteq> k \<Longrightarrow> map_of (filter (\<lambda>p. fst p \<noteq> k) hs) k' = map_of hs k'"
  by (induction hs) auto

lemma map_of_set_header:
  "map_of (set_header k v hs) k' = (if k' = k then Some v else map_of hs k')"
  by (induction hs) (auto simp: map_of_filter_other)

lemma map_of_add_vary_header:
  "k \<noteq> ''vary'' \<Longrightarrow> map_of (add_vary_header v hs) k = map_of hs k"
  by (simp add: add_vary_header_def map_of_set_header split: option.splits)

lemma map_of_allow_explicit_origin:
  "map_of (allow_explicit_origin origin hs) ''access-control-allow-origin'' = Some origin"
  by (simp add: allow_explicit_origin_def map_of_add_vary_header map_of_set_header)

lemma cors_flags:
  "\<not> allow_all_origins cors" "allow_all_headers cors" "allow_credentials cors"
  "preflight_explicit_allow_origin cors"
  by (simp_all add: allow_all_origins_def allow_all_headers_def
      preflight_explicit_allow_origin_def cors_def)

lemma preflight_grant:
  "map_of (raw_headers (preflight_response cors origin m h)) ''access-control-allow-origin'' =
     (if origin \<in> set (allow_origins cors) then Some origin else None)"
proof -
  have p: "map_of (preflight_headers cors) ''access-control-allow-origin'' = None"
    by (simp add: preflight_headers_def cors_flags)
  show ?thesis
    by (cases h)
       (simp_all add: preflight_response_def Let_def PlainTextResponse_def is_allowed_origin_def
        cors_flags map_of_set_header map_add_def p)
qed

lemma simple_grant:
  "map_of (raw_headers (cors_send cors rq origin rs)) ''access-control-allow-origin'' =
     (if origin \<in> set (allow_origins cors) then Some origin
      else map_of (raw_headers rs) ''access-control-allow-origin'')"
  by (simp add: cors_send_def Let_def is_allowed_origin_def cors_flags simple_headers_def
      map_of_allow_explicit_origin map_of_set_header)

text \<open>
  C9. The configuration is a constant: five distinct literal origins, the six methods,
  every header, credentials. An origin is allowed exactly when it is one of the five.
  The answer to a preflight request carries \<^verbatim>\<open>Access-Control-Allow-Origin\<close> exactly for
  an allowed origin, and the middleware sets that header on another response only for an
  allowed origin; for any other origin it leaves the header as the wrapped chain had it.
\<close>

theorem cors_policy:
  "allow_origins cors =
     [''http://localhost:3000'', ''http://127.0.0.1:3000'',
      ''https://todo-evolution-liart.vercel.app'', ''https://todo-evolution.vercel.app'',
      ''https://evaluation-todo.vercel.app''] \<and>
   length (allow_origins cors) = 5 \<and> distinct (allow_origins cors) \<and>
   set (allow_methods cors) = {''GET'', ''POST'', ''PUT'', ''PATCH'', ''DELETE'', ''OPTIONS''} \<and>
   allow_headers cors = [''*''] \<and> allow_all_headers cors \<and>
   allow_credentials cors \<and>
   is_allowed_origin cors origin =
     (origin \<in> {''http://localhost:3000'', ''http://127.0.0.1:3000'',
        ''https://todo-evolution-liart.vercel.app'', ''https://todo-evolution.vercel.app'',
        ''https://evaluation-todo.vercel.app''}) \<and>
   map_of (raw_headers (preflight_response cors origin m h)) ''access-control-allow-origin'' =
     (if is_allowed_origin cors origin then Some origin else None) \<and>
   map_of (raw_headers (cors_send cors rq origin rs)) ''access-control-allow-origin'' =
     (if is_allowed_origin cors origin then Some origin
      else map_of (raw_headers rs) ''access-control-allow-origin'')"
proof -
  have a: "is_allowed_origin cors origin = (origin \<in> set (allow_origins cors))"
    by (simp add: is_allowed_origin_def cors_flags)
  have b: "allow_origins cors =
     [''http://localhost:3000'', ''http://127.0.0.1:3000'',
      ''https://todo-evolution-liart.vercel.app'', ''https://todo-evolution.vercel.app'',
      ''https://evaluation-todo.vercel.app'']"
    by (simp add: cors_def)
  have c: "set (allow_methods cors) = {''GET'', ''POST'', ''PUT'', ''PATCH'', ''DELETE'', ''OPTIONS''}"
    by (simp add: cors_def)
  have d: "allow_headers cors = [''*'']" by (simp add: cors_def)
  have e: "distinct (allow_origins cors)" by (simp add: b)
  have f: "length (allow_origins cors) = 5" by (simp add: b)
  have g: "is_allowed_origin cors origin =
     (origin \<in> {''http://localhost:3000'', ''http://127.0.0.1:3000'',
        ''https://todo-evolution-liart.vercel.app'', ''https://todo-evolution.vercel.app'',
        ''https://evaluation-todo.vercel.app''})"
    unfolding a b by simp
  show ?thesis
    using b c d e f g cors_flags(2,3) preflight_grant [of origin m h] simple_grant [of rq origin rs]
    unfolding a [symmetric] by blast
qed

end
